theory Spec2Isabelle
  imports Complex_Main "HOL-Library.Multiset" "HOL-Library.Char_ord" "HOL-Library.List_Lexorder"
begin

section \<open>Accumulator-style aggregations of \<^verbatim>\<open>python/ray/data/aggregate.py\<close>\<close>

text \<open>
  The development embeds the aggregation classes of \<^verbatim>\<open>aggregate.py\<close>: the
  constructor of \<^verbatim>\<open>AggregateFn\<close>, the \<^verbatim>\<open>_validate\<close> hooks, \<^verbatim>\<open>Count\<close>, and the base
  functions of \<^verbatim>\<open>Std\<close> and \<^verbatim>\<open>Quantile\<close>.

  Conventions of the embedding:
  \<^item> a Python exception is a value of the type \<open>error\<close>; a callable that may raise
    returns \<open>error + 'a\<close>, with \<open>Inl\<close> for the exception;
  \<^item> a Python \<^verbatim>\<open>int\<close> is an \<open>int\<close>; a Python number whose kind is open (\<^verbatim>\<open>int\<close> or
    \<^verbatim>\<open>float\<close>) is the real number it denotes, so the rounding error of binary floating
    point is outside the model;
  \<^item> a list object that the code changes in place lives in an explicit heap.
\<close>

subsection \<open>Exceptions\<close>

datatype error =
    ValueError string
  | TypeError
  | IndexError
  | ZeroDivisionError
  | SchemaError string

definition err_bind :: "error + 'a \<Rightarrow> ('a \<Rightarrow> error + 'b) \<Rightarrow> error + 'b" where
  "err_bind m f = (case m of Inl e \<Rightarrow> Inl e | Inr v \<Rightarrow> f v)"

subsection \<open>Blocks\<close>

text \<open>
  Modelled from the spec: the type \<^verbatim>\<open>Block\<close> of \<^verbatim>\<open>ray.data.block\<close>, which is not part
  of the source file. The spec (sections 1 and 6) describes a block as a contiguous
  partition of rows that offers \<^verbatim>\<open>num_rows()\<close> and a restartable row iterator; here a
  block is the sequence of its rows.
\<close>

type_synonym 'r block = "'r list"

text \<open>
  Modelled from the spec: \<^verbatim>\<open>BlockAccessor.for_block(block).iter_rows(...)\<close> of
  \<^verbatim>\<open>ray.data.block\<close>, not part of the source file: the rows of the block, in order.
\<close>

definition iter_rows :: "'r block \<Rightarrow> 'r list" where
  "iter_rows block = block"

text \<open>
  Modelled from the spec: \<^verbatim>\<open>BlockAccessor.for_block(block).num_rows()\<close> of
  \<^verbatim>\<open>ray.data.block\<close>, not part of the source file: the number of rows of the block.
\<close>

definition num_rows :: "'r block \<Rightarrow> int" where
  "num_rows block = int (length block)"

subsection \<open>The class \<^verbatim>\<open>AggregateFn\<close>\<close>

text \<open>
  An instance holds the five attributes the constructor assigns. The hooks are callables
  and may raise.
\<close>

record ('k, 'a, 'r, 'u) AggregateFn =
  init :: "'k \<Rightarrow> 'a"
  merge :: "'a \<Rightarrow> 'a \<Rightarrow> error + 'a"
  accumulate_block :: "'a \<Rightarrow> 'r block \<Rightarrow> error + 'a"
  finalize :: "'a \<Rightarrow> error + 'u"
  name :: "string option"

text \<open>
  The loop of the nested function \<^verbatim>\<open>accumulate_block\<close> that the constructor defines
  when only \<^verbatim>\<open>accumulate_row\<close> is given: \<^verbatim>\<open>for r in rows: a = accumulate_row(a, r)\<close>.
  An exception of \<^verbatim>\<open>accumulate_row\<close> leaves the loop.
\<close>

fun accumulate_rows :: "('a \<Rightarrow> 'r \<Rightarrow> error + 'a) \<Rightarrow> 'a \<Rightarrow> 'r list \<Rightarrow> error + 'a" where
  "accumulate_rows accumulate_row a [] = Inr a"
| "accumulate_rows accumulate_row a (r # rs) =
     (case accumulate_row a r of
        Inl e \<Rightarrow> Inl e
      | Inr a' \<Rightarrow> accumulate_rows accumulate_row a' rs)"

definition synthesized_accumulate_block ::
  "('a \<Rightarrow> 'r \<Rightarrow> error + 'a) \<Rightarrow> 'a \<Rightarrow> 'r block \<Rightarrow> error + 'a" where
  "synthesized_accumulate_block accumulate_row a block =
     accumulate_rows accumulate_row a (iter_rows block)"

definition exactly_one_msg :: string where
  "exactly_one_msg = ''Exactly one of accumulate_row or accumulate_block must be provided.''"

text \<open>
  \<^verbatim>\<open>AggregateFn.__init__\<close>. The two optional callables are \<open>None\<close> when the caller
  leaves them out. The default of \<^verbatim>\<open>finalize\<close> is \<open>default_finalize\<close>.
\<close>

definition default_finalize :: "'a \<Rightarrow> error + 'a" where
  "default_finalize a = Inr a"

definition AggregateFn_init ::
  "('k \<Rightarrow> 'a) \<Rightarrow> ('a \<Rightarrow> 'a \<Rightarrow> error + 'a) \<Rightarrow> ('a \<Rightarrow> 'r \<Rightarrow> error + 'a) option \<Rightarrow>
   ('a \<Rightarrow> 'r block \<Rightarrow> error + 'a) option \<Rightarrow> ('a \<Rightarrow> error + 'u) \<Rightarrow> string option \<Rightarrow>
   error + ('k, 'a, 'r, 'u) AggregateFn" where
  "AggregateFn_init init_arg merge_arg accumulate_row_arg accumulate_block_arg finalize_arg name_arg =
     (if (accumulate_row_arg = None \<and> accumulate_block_arg = None) \<or>
         (accumulate_row_arg \<noteq> None \<and> accumulate_block_arg \<noteq> None)
      then Inl (ValueError exactly_one_msg)
      else
        let accumulate_block' =
              (case accumulate_block_arg of
                 None \<Rightarrow> synthesized_accumulate_block (the accumulate_row_arg)
               | Some f \<Rightarrow> f)
        in Inr \<lparr> init = init_arg, merge = merge_arg, accumulate_block = accumulate_block',
                 finalize = finalize_arg, name = name_arg \<rparr>)"

subsection \<open>The \<^verbatim>\<open>_validate\<close> hooks and the class hierarchy\<close>

datatype agg_class =
    AggregateFn_class
  | AggregateOnKeyBase_class
  | Count_class
  | Sum_class
  | Min_class
  | Max_class
  | Mean_class
  | Std_class
  | AbsMax_class
  | Quantile_class

text \<open>The method resolution order of each class, as the class statements give it.\<close>

fun mro :: "agg_class \<Rightarrow> agg_class list" where
  "mro AggregateFn_class = [AggregateFn_class]"
| "mro AggregateOnKeyBase_class = [AggregateOnKeyBase_class, AggregateFn_class]"
| "mro Count_class = [Count_class, AggregateFn_class]"
| "mro c = [c, AggregateOnKeyBase_class, AggregateFn_class]"

text \<open>
  The classes whose body defines \<^verbatim>\<open>_validate\<close>, and the two bodies. The function
  \<^verbatim>\<open>_validate_key_fn\<close> of \<^verbatim>\<open>ray.data.block\<close> is not part of the source file and is a
  parameter.
\<close>

fun defines_validate :: "agg_class \<Rightarrow> bool" where
  "defines_validate AggregateFn_class = True"
| "defines_validate AggregateOnKeyBase_class = True"
| "defines_validate c = False"

definition AggregateFn_validate :: "'s \<Rightarrow> error + unit" where
  "AggregateFn_validate schema = Inr ()"

definition AggregateOnKeyBase_validate ::
  "('s \<Rightarrow> string option \<Rightarrow> error + unit) \<Rightarrow> string option \<Rightarrow> 's \<Rightarrow> error + unit" where
  "AggregateOnKeyBase_validate validate_key_fn key_fn schema = validate_key_fn schema key_fn"

text \<open>
  The call \<^verbatim>\<open>agg._validate(schema)\<close> on an instance of class \<open>c\<close> whose attribute
  \<^verbatim>\<open>_key_fn\<close> is \<open>key_fn\<close>: the first class of the resolution order that defines the
  method supplies the body.
\<close>

definition validate ::
  "('s \<Rightarrow> string option \<Rightarrow> error + unit) \<Rightarrow> agg_class \<Rightarrow> string option \<Rightarrow> 's \<Rightarrow> error + unit" where
  "validate validate_key_fn c key_fn schema =
     (case List.find defines_validate (mro c) of
        Some AggregateOnKeyBase_class \<Rightarrow> AggregateOnKeyBase_validate validate_key_fn key_fn schema
      | _ \<Rightarrow> AggregateFn_validate schema)"

subsection \<open>\<^verbatim>\<open>Count\<close>\<close>

text \<open>
  \<^verbatim>\<open>Count.__init__\<close> passes three lambdas and the name to the constructor of
  \<^verbatim>\<open>AggregateFn\<close>; \<^verbatim>\<open>finalize\<close> keeps its default.
\<close>

definition Count :: "error + ('k, int, 'r, int) AggregateFn" where
  "Count =
     AggregateFn_init
       (\<lambda>k. 0)
       (\<lambda>a1 a2. Inr (a1 + a2))
       None
       (Some (\<lambda>a block. Inr (a + num_rows block)))
       default_finalize
       (Some ''count()'')"

text \<open>
  How the engine drives an aggregation for one group (section 2 of the spec): a worker
  seeds an accumulator with \<open>init\<close> and feeds it a sequence of blocks through
  \<open>accumulate_block\<close>; accumulators of different workers are merged pairwise in some
  tree; \<open>finalize\<close> is applied once to the root.
\<close>

datatype 'r merge_tree =
    Worker "'r block list"
  | Merge "'r merge_tree" "'r merge_tree"

fun accumulate_blocks ::
  "('k, 'a, 'r, 'u) AggregateFn \<Rightarrow> 'a \<Rightarrow> 'r block list \<Rightarrow> error + 'a" where
  "accumulate_blocks agg a [] = Inr a"
| "accumulate_blocks agg a (b # bs) =
     (case accumulate_block agg a b of
        Inl e \<Rightarrow> Inl e
      | Inr a' \<Rightarrow> accumulate_blocks agg a' bs)"

fun run_tree :: "('k, 'a, 'r, 'u) AggregateFn \<Rightarrow> 'k \<Rightarrow> 'r merge_tree \<Rightarrow> error + 'a" where
  "run_tree agg k (Worker bs) = accumulate_blocks agg (init agg k) bs"
| "run_tree agg k (Merge l r) =
     (case run_tree agg k l of
        Inl e \<Rightarrow> Inl e
      | Inr a1 \<Rightarrow>
          (case run_tree agg k r of
             Inl e \<Rightarrow> Inl e
           | Inr a2 \<Rightarrow> merge agg a1 a2))"

definition aggregate :: "('k, 'a, 'r, 'u) AggregateFn \<Rightarrow> 'k \<Rightarrow> 'r merge_tree \<Rightarrow> error + 'u" where
  "aggregate agg k t = err_bind (run_tree agg k t) (finalize agg)"

fun tree_blocks :: "'r merge_tree \<Rightarrow> 'r block list" where
  "tree_blocks (Worker bs) = bs"
| "tree_blocks (Merge l r) = tree_blocks l @ tree_blocks r"

subsection \<open>\<^verbatim>\<open>Std\<close>: the base merge and finalize\<close>

text \<open>
  The accumulator of \<^verbatim>\<open>Std\<close> is the three-element list \<^verbatim>\<open>[M2, mean, count]\<close>; the
  count is an integer (the seed is \<^verbatim>\<open>[0, 0, 0]\<close>, a block contributes its row count).
\<close>

type_synonym std_acc = "real \<times> real \<times> int"

text \<open>Python's true division and \<^verbatim>\<open>math.sqrt\<close>, with their exceptions.\<close>

definition py_truediv :: "real \<Rightarrow> real \<Rightarrow> error + real" where
  "py_truediv x y = (if y = 0 then Inl ZeroDivisionError else Inr (x / y))"

definition math_sqrt :: "real \<Rightarrow> error + real" where
  "math_sqrt x = (if x < 0 then Inl (ValueError ''math domain error'') else Inr (sqrt x))"

text \<open>The nested function \<^verbatim>\<open>merge\<close> of \<^verbatim>\<open>Std.__init__\<close>.\<close>

definition Std_merge :: "std_acc \<Rightarrow> std_acc \<Rightarrow> error + std_acc" where
  "Std_merge a b =
     (case a of (M2_a, mean_a, count_a) \<Rightarrow>
      case b of (M2_b, mean_b, count_b) \<Rightarrow>
        let delta = mean_b - mean_a;
            n = count_a + count_b
        in err_bind (py_truediv (mean_a * of_int count_a + mean_b * of_int count_b) (of_int n))
             (\<lambda>mean.
                err_bind (py_truediv (delta\<^sup>2 * of_int count_a * of_int count_b) (of_int n))
                  (\<lambda>t. let M2 = M2_a + M2_b + t in Inr (M2, mean, n))))"

text \<open>The nested function \<^verbatim>\<open>finalize\<close> of \<^verbatim>\<open>Std.__init__\<close>; \<open>ddof\<close> is the constructor's argument.\<close>

definition Std_finalize :: "int \<Rightarrow> std_acc \<Rightarrow> error + real" where
  "Std_finalize ddof a =
     (case a of (M2, mean, n) \<Rightarrow>
        if n < 2 then Inr 0
        else err_bind (py_truediv M2 (of_int (n - ddof))) math_sqrt)"

subsection \<open>Column values\<close>

text \<open>
  A value of a column is \<^verbatim>\<open>None\<close>, a string or a number. The accumulator that the base
  merge of \<^verbatim>\<open>Quantile\<close> receives is a list of such values or, as its
  \<^verbatim>\<open>isinstance\<close> tests provide for, a single value.
\<close>

datatype scalar = PyNone | PyStr string | PyNum real

datatype qstate = QList "scalar list" | QScalar scalar

text \<open>The test \<^verbatim>\<open>x is not None and x != ""\<close>.\<close>

definition not_blank :: "scalar \<Rightarrow> bool" where
  "not_blank x = (x \<noteq> PyNone \<and> x \<noteq> PyStr [])"

subsection \<open>\<^verbatim>\<open>Quantile\<close>: the base merge, on values\<close>

text \<open>
  The nested function \<^verbatim>\<open>merge\<close> of \<^verbatim>\<open>Quantile.__init__\<close>, read as a function from the
  contents of its operands to the contents of its result. The four equations are its
  four branches, in the order of the source.
\<close>

fun Quantile_merge :: "qstate \<Rightarrow> qstate \<Rightarrow> qstate" where
  "Quantile_merge (QList a) (QList b) = QList (a @ b)"
| "Quantile_merge (QList a) (QScalar b) = QList (if not_blank b then a @ [b] else a)"
| "Quantile_merge (QScalar a) (QList b) = QList (if not_blank a then b @ [a] else b)"
| "Quantile_merge (QScalar a) (QScalar b) =
     (let ls = [];
          ls = (if not_blank a then ls @ [a] else ls);
          ls = (if not_blank b then ls @ [b] else ls)
      in QList ls)"

subsection \<open>\<^verbatim>\<open>Quantile\<close>: the base merge, on list objects\<close>

text \<open>
  \<^verbatim>\<open>a.extend(b)\<close> and \<^verbatim>\<open>a.append(b)\<close> change a list object in place. A heap is the
  sequence of the list objects allocated so far; an address is an index into it. An
  operand is a reference to a list object or an immediate value.
\<close>

type_synonym addr = nat

type_synonym 'c heap = "'c list"

datatype pyref = Ref addr | Imm scalar

definition alloc :: "'c heap \<Rightarrow> 'c \<Rightarrow> 'c heap \<times> addr" where
  "alloc h obj = (h @ [obj], length h)"



fun Quantile_merge_heap :: "scalar list heap \<Rightarrow> pyref \<Rightarrow> pyref \<Rightarrow> scalar list heap \<times> pyref" where
  "Quantile_merge_heap h (Ref a) (Ref b) = (h[a := h ! a @ h ! b], Ref a)"
| "Quantile_merge_heap h (Ref a) (Imm b) =
     ((if not_blank b then h[a := h ! a @ [b]] else h), Ref a)"
| "Quantile_merge_heap h (Imm a) (Ref b) =
     ((if not_blank a then h[b := h ! b @ [a]] else h), Ref b)"
| "Quantile_merge_heap h (Imm a) (Imm b) =
     (case alloc h [] of (h1, ls) \<Rightarrow>
        let h2 = (if not_blank a then h1[ls := h1 ! ls @ [a]] else h1);
            h3 = (if not_blank b then h2[ls := h2 ! ls @ [b]] else h2)
        in (h3, Ref ls))"


subsection \<open>\<^verbatim>\<open>Quantile\<close>: the nested function \<^verbatim>\<open>percentile\<close>\<close>

text \<open>Truth value testing: \<^verbatim>\<open>not x\<close>.\<close>

fun py_not :: "qstate \<Rightarrow> bool" where
  "py_not (QList xs) = (xs = [])"
| "py_not (QScalar PyNone) = True"
| "py_not (QScalar (PyStr s)) = (s = [])"
| "py_not (QScalar (PyNum x)) = (x = 0)"

text \<open>
  \<^verbatim>\<open>sorted\<close> iterates its argument (a list yields its elements, a string its
  characters, \<^verbatim>\<open>None\<close> and numbers are not iterable) and orders the elements with
  \<^verbatim>\<open><\<close>, which is defined between two numbers and between two strings only. A
  sequence of at most one element is returned without any comparison; a longer one is
  sorted when its elements are all numbers or all strings, and raises \<^verbatim>\<open>TypeError\<close>
  otherwise.
\<close>

fun py_iter :: "qstate \<Rightarrow> error + scalar list" where
  "py_iter (QList xs) = Inr xs"
| "py_iter (QScalar (PyStr s)) = Inr (map (\<lambda>c. PyStr [c]) s)"
| "py_iter (QScalar x) = Inl TypeError"

fun is_num :: "scalar \<Rightarrow> bool" where
  "is_num (PyNum x) = True"
| "is_num x = False"

fun is_str :: "scalar \<Rightarrow> bool" where
  "is_str (PyStr s) = True"
| "is_str x = False"

fun num_of :: "scalar \<Rightarrow> real" where
  "num_of (PyNum x) = x"
| "num_of x = 0"

fun str_of :: "scalar \<Rightarrow> string" where
  "str_of (PyStr s) = s"
| "str_of x = []"

definition sort_values :: "scalar list \<Rightarrow> error + scalar list" where
  "sort_values xs =
     (if length xs \<le> 1 then Inr xs
      else if list_all is_num xs then Inr (map PyNum (sort (map num_of xs)))
      else if list_all is_str xs then Inr (map PyStr (sort (map str_of xs)))
      else Inl TypeError)"

definition py_sorted :: "qstate \<Rightarrow> error + scalar list" where
  "py_sorted x = err_bind (py_iter x) sort_values"

text \<open>Indexing a list: a negative index counts from the end.\<close>

definition py_getitem :: "'a list \<Rightarrow> int \<Rightarrow> error + 'a" where
  "py_getitem xs i =
     (if 0 \<le> i \<and> i < int (length xs) then Inr (xs ! nat i)
      else if i < 0 \<and> - int (length xs) \<le> i then Inr (xs ! nat (int (length xs) + i))
      else Inl IndexError)"

text \<open>\<^verbatim>\<open>int(k)\<close> of a float truncates towards zero.\<close>

definition py_int :: "real \<Rightarrow> int" where
  "py_int k = (if 0 \<le> k then \<lfloor>k\<rfloor> else \<lceil>k\<rceil>)"

text \<open>The product of a column value and a float.\<close>

fun py_mul_float :: "scalar \<Rightarrow> real \<Rightarrow> error + real" where
  "py_mul_float (PyNum x) y = Inr (x * y)"
| "py_mul_float x y = Inl TypeError"

text \<open>
  \<^verbatim>\<open>round(x, ndigits)\<close> of a float: the nearest multiple of ten to the power
  \<^verbatim>\<open>-ndigits\<close>, a tie going to the even one.
\<close>

definition py_round :: "real \<Rightarrow> nat \<Rightarrow> real" where
  "py_round x ndigits =
     (let y = x * 10 ^ ndigits;
          n = \<lfloor>y\<rfloor>;
          r = y - of_int n
      in (if r < 1 / 2 then of_int n
          else if 1 / 2 < r then of_int (n + 1)
          else if even n then of_int n
          else of_int (n + 1)) / 10 ^ ndigits)"

text \<open>
  \<^verbatim>\<open>percentile\<close> with the quantile \<open>q\<close> of the instance (\<^verbatim>\<open>self._q\<close>). The parameter
  \<^verbatim>\<open>key\<close> keeps its default, the identity: \<^verbatim>\<open>percentile\<close> is only passed on as the
  \<^verbatim>\<open>finalize\<close> callable, which is called with the accumulator alone.
\<close>

definition percentile :: "real \<Rightarrow> qstate \<Rightarrow> error + scalar" where
  "percentile q input_values =
     (if py_not input_values then Inr PyNone
      else
        err_bind (py_sorted input_values)
          (\<lambda>input_values.
             let k = (of_int (int (length input_values) - 1)) * q;
                 f = \<lfloor>k\<rfloor>;
                 c = \<lceil>k\<rceil>
             in if f = c then py_getitem input_values (py_int k)
                else
                  err_bind (py_getitem input_values f)
                    (\<lambda>v0. err_bind (py_mul_float v0 (of_int c - k))
                    (\<lambda>d0. err_bind (py_getitem input_values c)
                    (\<lambda>v1. err_bind (py_mul_float v1 (k - of_int f))
                    (\<lambda>d1. Inr (PyNum (py_round (d0 + d1) 5))))))))"

subsection \<open>The null-handling wrappers\<close>

text \<open>
  The module \<^verbatim>\<open>ray.data._internal.null_aggregate\<close> with the wrappers
  \<^verbatim>\<open>_null_wrap_init\<close>, \<^verbatim>\<open>_null_wrap_merge\<close>, \<^verbatim>\<open>_null_wrap_accumulate_block\<close> and
  \<^verbatim>\<open>_null_wrap_finalize\<close> is not part of the source file. The definitions of this
  subsection follow section 4.2 of the spec.
\<close>

text \<open>
  Modelled from the spec: the wrapped accumulator of \<^verbatim>\<open>null_aggregate\<close>. It is
  "no-value" (no data seen yet), the poison marker (a null was seen and nulls are not
  ignored) or a value holding a base accumulator.
\<close>

datatype 'a wrapped = NoValue | Poison | Value 'a

text \<open>
  Modelled from the spec: \<^verbatim>\<open>_null_wrap_init\<close> of \<^verbatim>\<open>null_aggregate\<close>. The wrapped
  \<^verbatim>\<open>init\<close> returns "no-value"; the seed of the base \<^verbatim>\<open>init\<close> is not used.
\<close>

definition null_wrap_init :: "('k \<Rightarrow> 'a) \<Rightarrow> 'k \<Rightarrow> 'a wrapped" where
  "null_wrap_init init_arg k = NoValue"

text \<open>
  Modelled from the spec: \<^verbatim>\<open>_null_wrap_merge\<close> of \<^verbatim>\<open>null_aggregate\<close>. "No-value"
  merges to the other operand unchanged, poison with anything gives poison, and two
  values go to the base merge.
\<close>

fun null_wrap_merge ::
  "bool \<Rightarrow> ('a \<Rightarrow> 'a \<Rightarrow> error + 'a) \<Rightarrow> 'a wrapped \<Rightarrow> 'a wrapped \<Rightarrow> error + 'a wrapped" where
  "null_wrap_merge ignore_nulls merge_arg NoValue b = Inr b"
| "null_wrap_merge ignore_nulls merge_arg a NoValue = Inr a"
| "null_wrap_merge ignore_nulls merge_arg Poison b = Inr Poison"
| "null_wrap_merge ignore_nulls merge_arg a Poison = Inr Poison"
| "null_wrap_merge ignore_nulls merge_arg (Value x) (Value y) =
     (case merge_arg x y of Inl e \<Rightarrow> Inl e | Inr z \<Rightarrow> Inr (Value z))"

text \<open>
  Modelled from the spec: \<^verbatim>\<open>_null_wrap_accumulate_block\<close> of \<^verbatim>\<open>null_aggregate\<close>. The
  base function is called on the whole block; when it reports nothing (\<^verbatim>\<open>None\<close>) the
  partial state is "no-value" if nulls are ignored and poison otherwise, else it is the
  computed state; the partial state is merged into the running state with the wrapped
  merge.
\<close>

definition null_wrap_accumulate_block ::
  "bool \<Rightarrow> ('r block \<Rightarrow> 'a option) \<Rightarrow> ('a wrapped \<Rightarrow> 'a wrapped \<Rightarrow> error + 'a wrapped) \<Rightarrow>
   'a wrapped \<Rightarrow> 'r block \<Rightarrow> error + 'a wrapped" where
  "null_wrap_accumulate_block ignore_nulls accum_block null_merge a block =
     (let partial =
            (case accum_block block of
               None \<Rightarrow> (if ignore_nulls then NoValue else Poison)
             | Some v \<Rightarrow> Value v)
      in null_merge a partial)"

text \<open>
  Modelled from the spec: \<^verbatim>\<open>_null_wrap_finalize\<close> of \<^verbatim>\<open>null_aggregate\<close>. "No-value"
  and poison give the null output, a value the base \<^verbatim>\<open>finalize\<close> of its accumulator.
\<close>

definition null_wrap_finalize :: "('a \<Rightarrow> error + scalar) \<Rightarrow> 'a wrapped \<Rightarrow> error + scalar" where
  "null_wrap_finalize finalize_arg a =
     (case a of
        NoValue \<Rightarrow> Inr PyNone
      | Poison \<Rightarrow> Inr PyNone
      | Value v \<Rightarrow> finalize_arg v)"

subsection \<open>The class \<^verbatim>\<open>Quantile\<close>\<close>

text \<open>
  A row is a mapping from column names to values; \<^verbatim>\<open>row.get(on)\<close> is \<^verbatim>\<open>None\<close> for a
  column the row does not have.
\<close>

type_synonym row = "string option \<rightharpoonup> scalar"

definition row_get :: "row \<Rightarrow> string option \<Rightarrow> scalar" where
  "row_get r on = (case r on of None \<Rightarrow> PyNone | Some v \<Rightarrow> v)"

text \<open>The nested function \<^verbatim>\<open>block_row_ls\<close>: the column's values, row by row.\<close>

fun append_rows :: "string option \<Rightarrow> scalar list \<Rightarrow> row list \<Rightarrow> scalar list" where
  "append_rows on ls [] = ls"
| "append_rows on ls (r # rs) = append_rows on (ls @ [row_get r on]) rs"

definition block_row_ls :: "string option \<Rightarrow> row block \<Rightarrow> qstate" where
  "block_row_ls on block = QList (append_rows on [] (iter_rows block))"

definition py_str :: "string option \<Rightarrow> string" where
  "py_str on = (case on of None \<Rightarrow> ''None'' | Some s \<Rightarrow> s)"

text \<open>
  \<^verbatim>\<open>Quantile.__init__\<close>: the name, the wrapped merge, and the call of the constructor of
  \<^verbatim>\<open>AggregateFn\<close>. The base functions return a value where the wrappers expect a
  callable that may raise or may return \<^verbatim>\<open>None\<close>. The accumulators are taken by
  their contents, so the base merge is \<open>Quantile_merge\<close>; what it does to the list
  objects is \<open>Quantile_merge_heap\<close>.
\<close>

definition Quantile ::
  "string option \<Rightarrow> real \<Rightarrow> bool \<Rightarrow> string option \<Rightarrow>
   error + ('k, qstate wrapped, row, scalar) AggregateFn" where
  "Quantile on q ignore_nulls alias_name =
     (let rs_name =
            (case alias_name of
               None \<Rightarrow> ''quantile('' @ py_str on @ '')''
             | Some s \<Rightarrow> if s \<noteq> [] then s else ''quantile('' @ py_str on @ '')'');
          null_merge = null_wrap_merge ignore_nulls (\<lambda>a b. Inr (Quantile_merge a b))
      in AggregateFn_init
           (null_wrap_init (\<lambda>k. QList [PyNum 0]))
           null_merge
           None
           (Some (null_wrap_accumulate_block ignore_nulls
                    (\<lambda>block. Some (block_row_ls on block)) null_merge))
           (null_wrap_finalize (percentile q))
           (Some rs_name))"

text \<open>A block of rows that have the one column \<open>on\<close>, with the given values.\<close>

definition column_block :: "string option \<Rightarrow> scalar list \<Rightarrow> row block" where
  "column_block on vs = map (\<lambda>v. Map.empty(on \<mapsto> v)) vs"

subsection \<open>The hooks on objects\<close>

text \<open>
  The hooks that an aggregation hands to the engine (\<^verbatim>\<open>self.merge\<close>,
  \<^verbatim>\<open>self.accumulate_block\<close>) are, for every class but \<^verbatim>\<open>Count\<close>, built by the wrappers
  of \<^verbatim>\<open>null_aggregate\<close> around the base functions of the source file. This subsection
  gives them on the heap: an accumulator that the engine holds is a wrapped reference
  to the object of its base state.
\<close>























section \<open>Properties\<close>

subsection \<open>Construction and the synthesized block accumulation\<close>

lemma accumulate_rows_error_origin:
  "accumulate_rows f a rs = Inl e \<Longrightarrow> \<exists>a' r. r \<in> set rs \<and> f a' r = Inl e"
proof (induction rs arbitrary: a)
  case Nil
  then show ?case by simp
next
  case (Cons r rs)
  show ?case
  proof (cases "f a r")
    case (Inl e')
    with Cons.prems have "f a r = Inl e" by simp
    then show ?thesis by auto
  next
    case (Inr a')
    with Cons.prems have "accumulate_rows f a' rs = Inl e" by simp
    from Cons.IH [OF this] show ?thesis by auto
  qed
qed

lemma accumulate_rows_fold:
  "accumulate_rows f a rs = foldl (\<lambda>acc r. err_bind acc (\<lambda>a'. f a' r)) (Inr a) rs"
proof -
  have stuck: "foldl (\<lambda>acc r. err_bind acc (\<lambda>a'. f a' r)) (Inl e) rs = Inl e" for e rs
    by (induction rs) (simp_all add: err_bind_def)
  show ?thesis
  proof (induction rs arbitrary: a)
    case Nil
    show ?case by simp
  next
    case (Cons r rs)
    show ?case
    proof (cases "f a r")
      case (Inl e)
      then show ?thesis using stuck [of e rs] by (simp add: err_bind_def)
    next
      case (Inr a')
      then show ?thesis using Cons.IH [of a'] by (simp add: err_bind_def)
    qed
  qed
qed

lemma accumulate_rows_pure:
  "accumulate_rows (\<lambda>a r. Inr (g a r)) a rs = Inr (foldl g a rs)"
  by (induction rs arbitrary: a) simp_all

text \<open>
  C1. The constructor of \<^verbatim>\<open>AggregateFn\<close> fails with the \<^verbatim>\<open>ValueError\<close> "Exactly one
  of accumulate_row or accumulate_block must be provided." (the configuration error of
  the spec) when neither or both of \<^verbatim>\<open>accumulate_row\<close> and \<^verbatim>\<open>accumulate_block\<close> are
  given. With exactly one of them it returns the instance whose hooks are the callables
  it was given, \<^verbatim>\<open>accumulate_block\<close> being the given one or the loop over
  \<^verbatim>\<open>accumulate_row\<close>. Nothing in the instance raises the error later: the synthesized
  \<^verbatim>\<open>accumulate_block\<close> raises only what \<^verbatim>\<open>accumulate_row\<close> raised on a row of the block.
\<close>

theorem AggregateFn_init_exactly_one:
  "AggregateFn_init i m None None f n = Inl (ValueError exactly_one_msg) \<and>
   AggregateFn_init i m (Some r) (Some b) f n = Inl (ValueError exactly_one_msg) \<and>
   AggregateFn_init i m (Some r) None f n =
     Inr \<lparr> init = i, merge = m, accumulate_block = synthesized_accumulate_block r,
           finalize = f, name = n \<rparr> \<and>
   AggregateFn_init i m None (Some b) f n =
     Inr \<lparr> init = i, merge = m, accumulate_block = b, finalize = f, name = n \<rparr> \<and>
   (synthesized_accumulate_block r a block = Inl e \<longrightarrow>
      (\<exists>a' row. row \<in> set block \<and> r a' row = Inl e))"
proof -
  have "synthesized_accumulate_block r a block = Inl e \<longrightarrow>
      (\<exists>a' row. row \<in> set block \<and> r a' row = Inl e)"
    using accumulate_rows_error_origin [of r a block e]
    by (simp add: synthesized_accumulate_block_def iter_rows_def)
  then show ?thesis
    by (simp add: AggregateFn_init_def)
qed

theorem AggregateFn_init_exactly_one_witness:
  "synthesized_accumulate_block (\<lambda>a row. if row = 0 then Inl TypeError else Inr (a + row))
     (0::int) [1, 0::int] = Inl TypeError \<and>
   (\<exists>a' row. row \<in> set [1, 0::int] \<and>
      (if row = 0 then Inl TypeError else Inr (a' + row)) = (Inl TypeError :: error + int))"
proof -
  have run: "synthesized_accumulate_block (\<lambda>a row. if row = 0 then Inl TypeError else Inr (a + row))
     (0::int) [1, 0::int] = Inl TypeError"
    by (simp add: synthesized_accumulate_block_def iter_rows_def)
  from AggregateFn_init_exactly_one
    [where r = "\<lambda>a row. if row = 0 then Inl TypeError else Inr (a + row)"
       and a = "0::int" and block = "[1, 0::int]" and e = TypeError
       and i = "\<lambda>k::unit. 0::int" and m = "\<lambda>x y. Inr (x + y)"
       and b = "\<lambda>x bl. Inr x" and f = "default_finalize :: int \<Rightarrow> error + int" and n = None]
  have "synthesized_accumulate_block (\<lambda>a row. if row = 0 then Inl TypeError else Inr (a + row))
     (0::int) [1, 0::int] = Inl TypeError \<longrightarrow>
   (\<exists>a' row. row \<in> set [1, 0::int] \<and>
      (if row = 0 then Inl TypeError else Inr (a' + row)) = (Inl TypeError :: error + int))"
    by blast
  with run show ?thesis by blast
qed

text \<open>
  C7. For an instance built from \<^verbatim>\<open>accumulate_row\<close> alone, the synthesized
  \<^verbatim>\<open>accumulate_block\<close> on \<open>(a, block)\<close> is the left fold of \<^verbatim>\<open>accumulate_row\<close> over the
  rows of the block in iteration order, from \<open>a\<close> (an exception ends the fold); an empty
  block returns \<open>a\<close>; for an \<^verbatim>\<open>accumulate_row\<close> that never raises it is
  \<open>foldl accumulate_row a rows\<close>.
\<close>

theorem synthesized_accumulate_block_is_fold:
  "(\<exists>agg. AggregateFn_init i m (Some r) None f n = Inr agg \<and>
      accumulate_block agg a block =
        foldl (\<lambda>acc row. err_bind acc (\<lambda>a'. r a' row)) (Inr a) block \<and>
      accumulate_block agg a [] = Inr a) \<and>
   (\<exists>agg. AggregateFn_init i m (Some (\<lambda>a row. Inr (g a row))) None f n = Inr agg \<and>
      accumulate_block agg a block = Inr (foldl g a block))"
  by (simp add: AggregateFn_init_def synthesized_accumulate_block_def iter_rows_def
      accumulate_rows_fold [symmetric] accumulate_rows_pure)

theorem synthesized_accumulate_block_is_fold_witness:
  "\<exists>agg. AggregateFn_init (\<lambda>k::unit. 0::int) (\<lambda>x y. Inr (max x y)) (Some (\<lambda>a r. Inr (max a \<bar>r\<bar>)))
           None default_finalize (Some ''abs_max'') = Inr agg \<and>
         accumulate_block agg 0 [- 5, 3, - 2 :: int] = Inr 5"
proof -
  from synthesized_accumulate_block_is_fold
    [where g = "\<lambda>a r::int. max a \<bar>r\<bar>" and a = "0::int" and block = "[- 5, 3, - 2]"
       and i = "\<lambda>k::unit. 0::int" and m = "\<lambda>x y. Inr (max x y)"
       and r = "\<lambda>a r. Inr (max a \<bar>r\<bar>)"
       and f = "default_finalize :: int \<Rightarrow> error + int" and n = "Some ''abs_max''"]
  obtain agg where
    "AggregateFn_init (\<lambda>k::unit. 0::int) (\<lambda>x y. Inr (max x y)) (Some (\<lambda>a r. Inr (max a \<bar>r\<bar>)))
           None (default_finalize :: int \<Rightarrow> error + int) (Some ''abs_max'') = Inr agg"
    "accumulate_block agg 0 [- 5, 3, - 2 :: int] = Inr (foldl (\<lambda>a r::int. max a \<bar>r\<bar>) 0 [- 5, 3, - 2])"
    by blast
  then show ?thesis by simp
qed

subsection \<open>Schema validation\<close>

text \<open>
  C9. The \<^verbatim>\<open>_validate\<close> of \<^verbatim>\<open>AggregateFn\<close> returns without raising for every schema.
  A call of \<^verbatim>\<open>_validate\<close> on an instance goes to \<^verbatim>\<open>_validate_key_fn\<close> with the instance's
  key exactly for the classes that derive from \<^verbatim>\<open>_AggregateOnKeyBase\<close> (\<^verbatim>\<open>Sum\<close>,
  \<^verbatim>\<open>Min\<close>, \<^verbatim>\<open>Max\<close>, \<^verbatim>\<open>Mean\<close>, \<^verbatim>\<open>Std\<close>, \<^verbatim>\<open>AbsMax\<close>, \<^verbatim>\<open>Quantile\<close>, and that base itself);
  for \<^verbatim>\<open>AggregateFn\<close> and \<^verbatim>\<open>Count\<close> it does nothing, whatever the key check would say.
\<close>

theorem validate_dispatch:
  "AggregateFn_validate schema = Inr () \<and>
   validate validate_key_fn c key_fn schema =
     (if c \<in> {AggregateOnKeyBase_class, Sum_class, Min_class, Max_class, Mean_class,
               Std_class, AbsMax_class, Quantile_class}
      then validate_key_fn schema key_fn
      else Inr ())"
  by (cases c)
     (simp_all add: validate_def AggregateFn_validate_def AggregateOnKeyBase_validate_def)

theorem validate_dispatch_witness:
  "validate (\<lambda>(s::string list) k. Inl (SchemaError ''no such column'')) Count_class None [] = Inr () \<and>
   validate (\<lambda>(s::string list) k. Inl (SchemaError ''no such column'')) Quantile_class (Some ''x'') []
     = Inl (SchemaError ''no such column'')"
proof -
  have a: "validate (\<lambda>(s::string list) k. Inl (SchemaError ''no such column'')) Count_class None [] = Inr ()"
    using validate_dispatch
      [where c = Count_class and key_fn = None and schema = "[]::string list"
         and validate_key_fn = "\<lambda>(s::string list) k. Inl (SchemaError ''no such column'')"]
    by simp
  have b: "validate (\<lambda>(s::string list) k. Inl (SchemaError ''no such column'')) Quantile_class (Some ''x'') []
     = Inl (SchemaError ''no such column'')"
    using validate_dispatch
      [where c = Quantile_class and key_fn = "Some ''x''" and schema = "[]::string list"
         and validate_key_fn = "\<lambda>(s::string list) k. Inl (SchemaError ''no such column'')"]
    by simp
  from a b show ?thesis by blast
qed

subsection \<open>\<^verbatim>\<open>Count\<close>\<close>

lemma Count_instance:
  "Count = Inr \<lparr> init = (\<lambda>k. 0), merge = (\<lambda>a1 a2. Inr (a1 + a2)),
                 accumulate_block = (\<lambda>a block. Inr (a + num_rows block)),
                 finalize = default_finalize, name = Some ''count()'' \<rparr>"
  by (simp add: Count_def AggregateFn_init_def)

lemma Count_accumulate_blocks:
  assumes "accumulate_block agg = (\<lambda>a block. Inr (a + num_rows block))"
  shows "accumulate_blocks agg a bs = Inr (a + int (length (concat bs)))"
  using assms by (induction bs arbitrary: a) (simp_all add: num_rows_def)

lemma Count_run_tree:
  assumes "accumulate_block agg = (\<lambda>a block. Inr (a + num_rows block))"
    and "merge agg = (\<lambda>a1 a2. Inr (a1 + a2))"
    and "init agg = (\<lambda>k. 0)"
  shows "run_tree agg k t = Inr (int (length (concat (tree_blocks t))))"
proof (induction t)
  case (Worker bs)
  show ?case using Count_accumulate_blocks [OF assms(1), of 0 bs] assms(3) by simp
next
  case (Merge l r)
  then show ?case using assms(2) by simp
qed

text \<open>
  C8. \<^verbatim>\<open>Count\<close>: finalizing the seed, no row processed, yields 0; and however the rows
  are split into blocks, the blocks spread over workers and the accumulators merged
  (any tree, the blocks in any order), the finalized result is the number of rows.
\<close>

theorem Count_counts_rows:
  assumes "mset (concat (tree_blocks t)) = mset rows"
  shows "\<exists>agg. (Count :: error + ('k, int, 'r, int) AggregateFn) = Inr agg \<and>
           finalize agg (init agg k) = Inr 0 \<and>
           aggregate agg k (Worker []) = Inr 0 \<and>
           aggregate agg k t = Inr (int (length rows))"
proof -
  let ?agg = "\<lparr> init = (\<lambda>k. 0), merge = (\<lambda>a1 a2. Inr (a1 + a2)),
                 accumulate_block = (\<lambda>a block. Inr (a + num_rows block)),
                 finalize = default_finalize, name = Some ''count()'' \<rparr>
              :: ('k, int, 'r, int) AggregateFn"
  have run: "run_tree ?agg k u = Inr (int (length (concat (tree_blocks u))))" for u
    by (rule Count_run_tree) simp_all
  have "length (concat (tree_blocks t)) = length rows"
    using assms by (rule mset_eq_length)
  then have "aggregate ?agg k t = Inr (int (length rows))"
    using run [of t] by (simp add: aggregate_def err_bind_def default_finalize_def)
  moreover have "aggregate ?agg k (Worker []) = Inr 0"
    by (simp add: aggregate_def err_bind_def default_finalize_def)
  moreover have "finalize ?agg (init ?agg k) = Inr 0"
    by (simp add: default_finalize_def)
  ultimately show ?thesis using Count_instance [where ?'a = 'k and ?'b = 'r] by blast
qed

theorem Count_counts_rows_witness:
  "\<exists>agg. (Count :: error + (unit, int, nat, int) AggregateFn) = Inr agg \<and>
     aggregate agg () (Merge (Worker [[1, 2], [3]]) (Merge (Worker []) (Worker [[4]]))) = Inr 4"
proof -
  have h: "mset (concat (tree_blocks (Merge (Worker [[1, 2], [3]]) (Merge (Worker []) (Worker [[4::nat]])))))
         = mset [4, 3, 2, 1]"
    by simp
  from Count_counts_rows [OF h, where k = "()"] show ?thesis by auto
qed

subsection \<open>\<^verbatim>\<open>Std\<close>\<close>

text \<open>
  C4. For two \<^verbatim>\<open>Std\<close> accumulators \<open>(M2_a, mean_a, n_a)\<close> and \<open>(M2_b, mean_b, n_b)\<close>
  with \<open>n_a + n_b > 0\<close> the base merge returns the count \<open>n = n_a + n_b\<close>, the mean
  \<open>(mean_a * n_a + mean_b * n_b) / n\<close> and
  \<open>M2 = M2_a + M2_b + (mean_b - mean_a)\<^sup>2 * n_a * n_b / n\<close>.
\<close>

theorem Std_merge_formula:
  assumes "0 < n_a + n_b"
  shows "Std_merge (M2_a, mean_a, n_a) (M2_b, mean_b, n_b) =
     Inr (M2_a + M2_b + (mean_b - mean_a)\<^sup>2 * of_int n_a * of_int n_b / of_int (n_a + n_b),
          (mean_a * of_int n_a + mean_b * of_int n_b) / of_int (n_a + n_b),
          n_a + n_b)"
proof -
  from assms have "real_of_int n_a + real_of_int n_b \<noteq> 0"
    by (metis of_int_add of_int_0_eq_iff less_irrefl)
  then show ?thesis
    by (simp add: Std_merge_def py_truediv_def err_bind_def Let_def)
qed

theorem Std_merge_formula_witness:
  "Std_merge (2, 3, 2) (0, 5, 1) = Inr (14 / 3, 11 / 3, 3)"
proof -
  have "(0::int) < 2 + 1" by simp
  from Std_merge_formula [OF this, of 2 3 0 5] show ?thesis by simp
qed

lemma Std_finalize_guarded:
  assumes "n < 2 \<or> (ddof < n \<and> 0 \<le> M2)"
  shows "Std_finalize ddof (M2, mean, n) =
     (if n < 2 then Inr 0 else Inr (sqrt (M2 / of_int (n - ddof))))"
proof (cases "n < 2")
  case True
  then show ?thesis by (simp add: Std_finalize_def)
next
  case False
  with assms have d: "ddof < n" and m: "0 \<le> M2" by simp_all
  from d have "0 < real_of_int (n - ddof)" by simp
  with m have "0 \<le> M2 / real_of_int (n - ddof)" by simp
  with False d show ?thesis
    by (simp add: Std_finalize_def py_truediv_def err_bind_def math_sqrt_def)
qed

text \<open>
  C5. The base finalize of \<^verbatim>\<open>Std\<close> is to return 0.0 for a count below 2 and
  \<open>sqrt (M2 / (count - ddof))\<close> from 2 on. The guard \<^verbatim>\<open>count < 2\<close> keeps the divisor
  away from 0 for \<open>ddof \<le> 1\<close> only (\<open>Std_finalize_guarded\<close> has the cases where the
  code does return these values). With \<open>ddof = 2\<close> the accumulator \<open>(0, 0, 2)\<close> of a group
  of two equal values passes the guard and the division by \<open>count - ddof = 0\<close> raises
  \<^verbatim>\<open>ZeroDivisionError\<close>; with \<open>ddof = 3\<close> the accumulator \<open>(4, 0, 2)\<close> makes the quotient
  negative and \<^verbatim>\<open>math.sqrt\<close> raises \<^verbatim>\<open>ValueError\<close>. No value is returned in either case.
\<close>

theorem Std_finalize_raises:
  "Std_finalize 2 (0, 0, 2) = Inl ZeroDivisionError \<and>
   Std_finalize 3 (4, 0, 2) = Inl (ValueError ''math domain error'')"
  by (simp add: Std_finalize_def py_truediv_def err_bind_def math_sqrt_def)

subsection \<open>The base merge of \<^verbatim>\<open>Quantile\<close>\<close>




text \<open>
  C10. In the base merge of \<^verbatim>\<open>Quantile\<close> with a list \<open>a\<close> and a value \<open>b\<close> that is not
  a list, the result is \<open>a\<close> with \<open>b\<close> appended when \<open>b\<close> is neither \<^verbatim>\<open>None\<close> nor the empty
  string, and \<open>a\<close> otherwise: \<^verbatim>\<open>None\<close> and the empty string are dropped. On list objects,
  the result is the object \<open>a\<close> itself, holding these values.
\<close>

theorem Quantile_merge_list_scalar:
  assumes "a < length h"
  shows "Quantile_merge (QList xs) (QScalar b) =
           (if b \<noteq> PyNone \<and> b \<noteq> PyStr '''' then QList (xs @ [b]) else QList xs) \<and>
         Quantile_merge (QList xs) (QScalar PyNone) = QList xs \<and>
         Quantile_merge (QList xs) (QScalar (PyStr '''')) = QList xs \<and>
         snd (Quantile_merge_heap h (Ref a) (Imm b)) = Ref a \<and>
         fst (Quantile_merge_heap h (Ref a) (Imm b)) ! a =
           (if b \<noteq> PyNone \<and> b \<noteq> PyStr '''' then h ! a @ [b] else h ! a)"
  using assms by (simp add: not_blank_def)

theorem Quantile_merge_list_scalar_witness:
  "Quantile_merge (QList [PyNum 1]) (QScalar (PyNum 2)) = QList [PyNum 1, PyNum 2] \<and>
   Quantile_merge (QList [PyNum 1]) (QScalar PyNone) = QList [PyNum 1] \<and>
   fst (Quantile_merge_heap [[PyNum 1]] (Ref 0) (Imm (PyNum 2))) ! 0 = [PyNum 1, PyNum 2]"
proof -
  have "(0::nat) < length [[PyNum 1]]" by simp
  from Quantile_merge_list_scalar [OF this, of "[PyNum 1]" "PyNum 2"]
  show ?thesis by simp
qed

subsection \<open>\<^verbatim>\<open>percentile\<close>\<close>

lemma sort_values_nums: "sort_values (map PyNum vs) = Inr (map PyNum (sort vs))"
proof (cases "length vs \<le> 1")
  case True
  then have "sort vs = vs" by (cases vs) simp_all
  with True show ?thesis by (simp add: sort_values_def)
next
  case False
  have "list_all is_num (map PyNum vs)" by (simp add: list_all_iff)
  moreover have "map num_of (map PyNum vs) = vs" by (simp add: comp_def)
  ultimately show ?thesis using False by (simp add: sort_values_def)
qed

lemma py_getitem_nth:
  "0 \<le> i \<Longrightarrow> i < int (length xs) \<Longrightarrow> py_getitem (map PyNum xs) i = Inr (PyNum (xs ! nat i))"
  by (simp add: py_getitem_def)

text \<open>
  C6, as the code has it. For a non-empty list of \<open>n\<close> numbers and \<open>0 \<le> q \<le> 1\<close>,
  \<^verbatim>\<open>percentile\<close> sorts the list and computes the rank \<open>k = (n - 1) * q\<close>. When
  \<open>floor k \<noteq> ceil k\<close> it returns
  \<open>value[floor k] * (ceil k - k) + value[ceil k] * (k - floor k)\<close> rounded to 5 decimal
  digits. When \<open>floor k = ceil k\<close> it returns the order statistic \<open>value[k]\<close> itself,
  which is neither that sum (the sum is 0 there) nor rounded.
\<close>

theorem percentile_interpolation:
  assumes "vs \<noteq> []" and "0 \<le> q" and "q \<le> 1"
  shows "percentile q (QList (map PyNum vs)) =
     (let k = real (length vs - 1) * q; f = \<lfloor>k\<rfloor>; c = \<lceil>k\<rceil>; s = sort vs
      in if f = c then Inr (PyNum (s ! nat f))
         else Inr (PyNum (py_round (s ! nat f * (of_int c - k) + s ! nat c * (k - of_int f)) 5)))"
proof -
  define k where "k = real (length vs - 1) * q"
  define s where "s = sort vs"
  from assms(1) have len: "1 \<le> length vs" by (cases vs) simp_all
  then have k_eq: "(real (length vs) - 1) * q = k"
    by (simp add: k_def of_nat_diff)
  have k0: "0 \<le> k" using assms(2) by (simp add: k_def)
  have "k \<le> real (length vs - 1) * 1"
    unfolding k_def using assms(3) by (intro mult_left_mono) simp_all
  then have kn: "k \<le> of_int (int (length vs) - 1)" using len by (simp add: of_nat_diff)
  have f0: "0 \<le> \<lfloor>k\<rfloor>" using k0 by simp
  have fc: "\<lfloor>k\<rfloor> \<le> \<lceil>k\<rceil>" by (rule floor_le_ceiling)
  have cn: "\<lceil>k\<rceil> \<le> int (length vs) - 1" using kn by (rule ceiling_le)
  have ls: "length s = length vs" by (simp add: s_def)
  have fb: "\<lfloor>k\<rfloor> < int (length s)" using fc cn ls by linarith
  have cb: "0 \<le> \<lceil>k\<rceil>" "\<lceil>k\<rceil> < int (length s)" using f0 fc cn ls by linarith+
  have gf: "py_getitem (map PyNum s) \<lfloor>k\<rfloor> = Inr (PyNum (s ! nat \<lfloor>k\<rfloor>))"
    using f0 fb by (rule py_getitem_nth)
  have gc: "py_getitem (map PyNum s) \<lceil>k\<rceil> = Inr (PyNum (s ! nat \<lceil>k\<rceil>))"
    using cb by (rule py_getitem_nth)
  have pi: "py_int k = \<lfloor>k\<rfloor>" using k0 by (simp add: py_int_def)
  have srt: "py_sorted (QList (map PyNum vs)) = Inr (map PyNum s)"
    by (simp add: py_sorted_def err_bind_def sort_values_nums s_def)
  have "percentile q (QList (map PyNum vs)) =
      (if \<lfloor>k\<rfloor> = \<lceil>k\<rceil> then Inr (PyNum (s ! nat \<lfloor>k\<rfloor>))
       else Inr (PyNum (py_round (s ! nat \<lfloor>k\<rfloor> * (of_int \<lceil>k\<rceil> - k) + s ! nat \<lceil>k\<rceil> * (k - of_int \<lfloor>k\<rfloor>)) 5)))"
    using assms(1) by (simp add: percentile_def srt err_bind_def ls k_eq gf gc pi Let_def)
  then show ?thesis by (simp add: k_def s_def Let_def)
qed

theorem percentile_interpolation_witness:
  "percentile (1 / 2) (QList (map PyNum [4, 1, 3, 2])) = Inr (PyNum (5 / 2)) \<and>
   percentile (1 / 3) (QList (map PyNum [4, 1, 3, 2])) = Inr (PyNum 2)"
proof -
  have a: "[4, 1, 3, 2 :: real] \<noteq> []" and b: "(0::real) \<le> 1 / 2" and c: "(1::real) / 2 \<le> 1"
    and d: "(0::real) \<le> 1 / 3" and e: "(1::real) / 3 \<le> 1"
    by simp_all
  have r: "py_round (5 / 2) 5 = 5 / 2" by (simp add: py_round_def Let_def)
  from percentile_interpolation [OF a b c] percentile_interpolation [OF a d e] r
  show ?thesis by (simp add: Let_def)
qed

text \<open>
  The claim C6 as stated fails where \<open>floor k = ceil k\<close>: for the one-element list
  \<^verbatim>\<open>[1.234567]\<close> and \<open>q = 0.5\<close> the rank is 0, the interpolation sum is 0 and the value
  rounded to 5 digits is 1.23457, but \<^verbatim>\<open>percentile\<close> returns 1.234567.
\<close>

theorem percentile_interpolation_counterexample:
  "percentile (1 / 2) (QList [PyNum (1234567 / 1000000)]) = Inr (PyNum (1234567 / 1000000)) \<and>
   percentile (1 / 2) (QList [PyNum (1234567 / 1000000)]) \<noteq>
     Inr (PyNum (py_round (1234567 / 1000000 * (of_int \<lceil>0 * (1 / 2) :: real\<rceil> - 0 * (1 / 2))
                         + 1234567 / 1000000 * (0 * (1 / 2) - of_int \<lfloor>0 * (1 / 2) :: real\<rfloor>)) 5)) \<and>
   percentile (1 / 2) (QList [PyNum (1234567 / 1000000)]) \<noteq>
     Inr (PyNum (py_round (1234567 / 1000000) 5))"
proof -
  have p: "percentile (1 / 2) (QList [PyNum (1234567 / 1000000)]) = Inr (PyNum (1234567 / 1000000))"
    by (simp add: percentile_def py_sorted_def sort_values_def err_bind_def py_getitem_def
        py_int_def Let_def)
  have z: "py_round (1234567 / 1000000 * (of_int \<lceil>0 * (1 / 2) :: real\<rceil> - 0 * (1 / 2))
                         + 1234567 / 1000000 * (0 * (1 / 2) - of_int \<lfloor>0 * (1 / 2) :: real\<rfloor>)) 5 = 0"
    by (simp add: py_round_def Let_def)
  have fl: "\<lfloor>1234567 / 10 :: real\<rfloor> = 123456" by linarith
  have r: "py_round (1234567 / 1000000) 5 = 123457 / 100000"
    by (simp add: py_round_def Let_def fl)
  show ?thesis unfolding p z r by simp
qed

subsection \<open>\<^verbatim>\<open>Quantile\<close> under the wrappers\<close>

lemma append_rows_eq: "append_rows on ls rs = ls @ map (\<lambda>r. row_get r on) rs"
  by (induction rs arbitrary: ls) simp_all

lemma Quantile_instance:
  "Quantile col q ign al =
     Inr \<lparr> init = null_wrap_init (\<lambda>k. QList [PyNum 0]),
           merge = null_wrap_merge ign (\<lambda>a b. Inr (Quantile_merge a b)),
           accumulate_block = null_wrap_accumulate_block ign (\<lambda>block. Some (block_row_ls col block))
                                (null_wrap_merge ign (\<lambda>a b. Inr (Quantile_merge a b))),
           finalize = null_wrap_finalize (percentile q),
           name = Some (case al of None \<Rightarrow> ''quantile('' @ py_str col @ '')''
                        | Some s \<Rightarrow> if s \<noteq> [] then s else ''quantile('' @ py_str col @ '')'') \<rparr>"
  by (simp add: Quantile_def AggregateFn_init_def Let_def)

lemma Quantile_accumulate_blocks_value:
  assumes "accumulate_block agg =
      null_wrap_accumulate_block ign (\<lambda>block. Some (block_row_ls col block))
        (null_wrap_merge ign (\<lambda>a b. Inr (Quantile_merge a b)))"
  shows "accumulate_blocks agg (Value (QList xs)) bs =
      Inr (Value (QList (xs @ map (\<lambda>r. row_get r col) (concat bs))))"
  using assms
  by (induction bs arbitrary: xs)
     (simp_all add: null_wrap_accumulate_block_def block_row_ls_def append_rows_eq iter_rows_def)

lemma Quantile_accumulate_blocks_seed:
  assumes "accumulate_block agg =
      null_wrap_accumulate_block ign (\<lambda>block. Some (block_row_ls col block))
        (null_wrap_merge ign (\<lambda>a b. Inr (Quantile_merge a b)))"
  shows "accumulate_blocks agg NoValue bs =
      Inr (if bs = [] then NoValue else Value (QList (map (\<lambda>r. row_get r col) (concat bs))))"
proof (cases bs)
  case Nil
  then show ?thesis by simp
next
  case (Cons b bs')
  then show ?thesis
    using Quantile_accumulate_blocks_value [OF assms, of "map (\<lambda>r. row_get r col) b" bs'] assms
    by (simp add: null_wrap_accumulate_block_def block_row_ls_def append_rows_eq iter_rows_def)
qed

lemma Quantile_run_tree:
  assumes ab: "accumulate_block agg =
      null_wrap_accumulate_block ign (\<lambda>block. Some (block_row_ls col block))
        (null_wrap_merge ign (\<lambda>a b. Inr (Quantile_merge a b)))"
    and mg: "merge agg = null_wrap_merge ign (\<lambda>a b. Inr (Quantile_merge a b))"
    and ini: "init agg = null_wrap_init i0"
  shows "run_tree agg k t =
      Inr (if tree_blocks t = [] then NoValue
           else Value (QList (map (\<lambda>r. row_get r col) (concat (tree_blocks t)))))"
proof (induction t)
  case (Worker bs)
  show ?case
    using Quantile_accumulate_blocks_seed [OF ab, of bs] ini by (simp add: null_wrap_init_def)
next
  case (Merge l r)
  then show ?case using mg by simp
qed

lemma Quantile_aggregate:
  assumes ab: "accumulate_block agg =
      null_wrap_accumulate_block ign (\<lambda>block. Some (block_row_ls col block))
        (null_wrap_merge ign (\<lambda>a b. Inr (Quantile_merge a b)))"
    and mg: "merge agg = null_wrap_merge ign (\<lambda>a b. Inr (Quantile_merge a b))"
    and ini: "init agg = null_wrap_init i0"
    and fin: "finalize agg = null_wrap_finalize (percentile q)"
  shows "aggregate agg k t = percentile q (QList (map (\<lambda>r. row_get r col) (concat (tree_blocks t))))"
proof (cases "tree_blocks t = []")
  case True
  then show ?thesis
    using Quantile_run_tree [OF ab mg ini, of k t] fin
    by (simp add: aggregate_def err_bind_def null_wrap_finalize_def percentile_def)
next
  case False
  then show ?thesis
    using Quantile_run_tree [OF ab mg ini, of k t] fin
    by (simp add: aggregate_def err_bind_def null_wrap_finalize_def)
qed

lemma sort_values_mset:
  assumes "mset xs = mset ys"
  shows "sort_values xs = sort_values ys"
proof -
  have len: "length xs = length ys" using assms by (rule mset_eq_length)
  have st: "set xs = set ys" using assms by (rule mset_eq_setD)
  show ?thesis
  proof (cases "length xs \<le> 1")
    case True
    then have "xs = ys" using assms len
      by (cases xs; cases ys) auto
    then show ?thesis by simp
  next
    case False
    have "mset (map num_of xs) = mset (map num_of ys)" using assms by simp
    then have n: "sort (map num_of xs) = sort (map num_of ys)"
      by (metis properties_for_sort sorted_sort mset_sort)
    have "mset (map str_of xs) = mset (map str_of ys)" using assms by simp
    then have s: "sort (map str_of xs) = sort (map str_of ys)"
      by (metis properties_for_sort sorted_sort mset_sort)
    show ?thesis using False len st n s by (simp add: sort_values_def list_all_iff)
  qed
qed

lemma percentile_mset:
  assumes "mset xs = mset ys"
  shows "percentile q (QList xs) = percentile q (QList ys)"
proof -
  have "xs = [] \<longleftrightarrow> ys = []" using assms by (metis mset_zero_iff)
  then show ?thesis using sort_values_mset [OF assms]
    by (simp add: percentile_def py_sorted_def err_bind_def)
qed

lemma column_block_values: "map (\<lambda>r. row_get r col) (column_block col vs) = vs"
  by (induction vs) (simp_all add: column_block_def row_get_def)

text \<open>
  C2. \<^verbatim>\<open>Quantile\<close> under the wrappers of the spec: for every list of rows, however it is
  split into blocks and the blocks are spread over workers and merged (any tree, from
  the seed of \<open>init\<close> at each worker), finalizing the merged accumulator gives what
  finalizing the accumulator of the whole list as one block gives. With \<open>q = 0.5\<close> the
  column \<^verbatim>\<open>[1, 2, 3, 4]\<close> finalizes to 2.5 and \<^verbatim>\<open>[5]\<close> to 5.
\<close>

theorem Quantile_split_merge_finalize:
  assumes "mset (concat (tree_blocks t)) = mset rows"
  shows "(\<exists>agg. (Quantile col q ign al :: error + ('k, qstate wrapped, row, scalar) AggregateFn) = Inr agg \<and>
            aggregate agg k t = aggregate agg k (Worker [rows])) \<and>
         (\<exists>agg. (Quantile col (1 / 2) ign al :: error + ('k, qstate wrapped, row, scalar) AggregateFn) = Inr agg \<and>
            aggregate agg k (Worker [column_block col [PyNum 1, PyNum 2, PyNum 3, PyNum 4]]) = Inr (PyNum (5 / 2)) \<and>
            aggregate agg k (Worker [column_block col [PyNum 5]]) = Inr (PyNum 5))"
proof -
  have agg: "aggregate agg k u = percentile p (QList (map (\<lambda>r. row_get r col) (concat (tree_blocks u))))"
    if "(Quantile col p ign al :: error + ('k, qstate wrapped, row, scalar) AggregateFn) = Inr agg"
    for agg p u
  proof -
    from that Quantile_instance [where ?'a = 'k and col = col and q = p and ign = ign and al = al]
    have "accumulate_block agg =
        null_wrap_accumulate_block ign (\<lambda>block. Some (block_row_ls col block))
          (null_wrap_merge ign (\<lambda>a b. Inr (Quantile_merge a b)))"
      and "merge agg = null_wrap_merge ign (\<lambda>a b. Inr (Quantile_merge a b))"
      and "init agg = null_wrap_init (\<lambda>k. QList [PyNum 0])"
      and "finalize agg = null_wrap_finalize (percentile p)"
      by auto
    then show ?thesis by (rule Quantile_aggregate)
  qed
  obtain a1 where a1: "(Quantile col q ign al :: error + ('k, qstate wrapped, row, scalar) AggregateFn) = Inr a1"
    using Quantile_instance by blast
  obtain a2 where a2: "(Quantile col (1 / 2) ign al :: error + ('k, qstate wrapped, row, scalar) AggregateFn) = Inr a2"
    using Quantile_instance by blast
  have "mset (map (\<lambda>r. row_get r col) (concat (tree_blocks t))) = mset (map (\<lambda>r. row_get r col) rows)"
    using assms by (metis mset_map)
  then have "aggregate a1 k t = aggregate a1 k (Worker [rows])"
    using agg [OF a1] percentile_mset by simp
  moreover have "aggregate a2 k (Worker [column_block col [PyNum 1, PyNum 2, PyNum 3, PyNum 4]]) = Inr (PyNum (5 / 2))"
    unfolding agg [OF a2]
    by (simp add: column_block_values percentile_def py_sorted_def sort_values_def err_bind_def
        py_getitem_def py_round_def Let_def)
  moreover have "aggregate a2 k (Worker [column_block col [PyNum 5]]) = Inr (PyNum 5)"
    unfolding agg [OF a2]
    by (simp add: column_block_values percentile_def py_sorted_def sort_values_def err_bind_def
        py_getitem_def py_int_def Let_def)
  ultimately show ?thesis using a1 a2 by blast
qed

theorem Quantile_split_merge_finalize_witness:
  "\<exists>agg. (Quantile (Some ''x'') (1 / 2) True None :: error + (unit, qstate wrapped, row, scalar) AggregateFn) = Inr agg \<and>
     aggregate agg ()
       (Merge (Worker [column_block (Some ''x'') [PyNum 3], column_block (Some ''x'') [PyNum 1]])
              (Merge (Worker []) (Worker [column_block (Some ''x'') [PyNum 4, PyNum 2]])))
     = Inr (PyNum (5 / 2))"
proof -
  let ?t = "Merge (Worker [column_block (Some ''x'') [PyNum 3], column_block (Some ''x'') [PyNum 1]])
              (Merge (Worker []) (Worker [column_block (Some ''x'') [PyNum 4, PyNum 2]]))"
  let ?rows = "column_block (Some ''x'') [PyNum 1, PyNum 2, PyNum 3, PyNum 4]"
  have h: "mset (concat (tree_blocks ?t)) = mset ?rows"
    by (simp add: column_block_def)
  from Quantile_split_merge_finalize [OF h, where col = "Some ''x''" and q = "1 / 2" and ign = True
      and al = None and k = "()"]
  show ?thesis by (metis Inr_inject)
qed

subsection \<open>The hooks keep the objects\<close>

lemma take_alloc: "take (length h) (fst (alloc h obj)) = h"
  by (simp add: alloc_def)

























text \<open>
  For contrast, the base merge of \<^verbatim>\<open>Quantile\<close> called on two list objects themselves:
  the first is extended in place and returned.
\<close>

lemma Quantile_merge_heap_in_place:
  "Quantile_merge_heap [[PyNum 1], [PyNum 2]] (Ref 0) (Ref 1) =
     ([[PyNum 1, PyNum 2], [PyNum 2]], Ref 0)"
  by simp



end
